theory Spec2Isabelle
  imports Main "HOL-Library.Word"
begin

section \<open>Python strings and the library operations the program relies on\<close>

text \<open>
  A Python \<open>str\<close> is modelled as a \<open>string\<close>; a character stands for a code point
  below 256 (HTTP header values reach the program decoded as Latin-1, so this is their
  full range). \<open>bytes\<close> are lists of 8-bit words. The operations below follow the
  behaviour of the Python built-ins of the same name on that range.
\<close>

type_synonym bytes = "8 word list"

text \<open>\<open>s.startswith(p)\<close>.\<close>

definition startswith :: "string \<Rightarrow> string \<Rightarrow> bool" where
  "startswith p s = (take (length p) s = p)"

text \<open>\<open>s.split(sep)\<close> for a one-character separator: never an empty list.\<close>

fun str_split :: "char \<Rightarrow> string \<Rightarrow> string list" where
  "str_split sep [] = [[]]"
| "str_split sep (c # cs) =
     (if c = sep then [] # str_split sep cs
      else (case str_split sep cs of
              [] \<Rightarrow> [[c]]
            | w # ws \<Rightarrow> (c # w) # ws))"

text \<open>
  \<open>s.lower()\<close>: A-Z and the upper-case letters of Latin-1 (code points 192 to 214 and
  216 to 222) are replaced by their lower-case forms, 32 positions further on.
\<close>

definition upper_chars :: string where
  "upper_chars = ''ABCDEFGHIJKLMNOPQRSTUVWXYZ'' @
     [CHR 0xC0, CHR 0xC1, CHR 0xC2, CHR 0xC3, CHR 0xC4, CHR 0xC5, CHR 0xC6, CHR 0xC7,
      CHR 0xC8, CHR 0xC9, CHR 0xCA, CHR 0xCB, CHR 0xCC, CHR 0xCD, CHR 0xCE, CHR 0xCF,
      CHR 0xD0, CHR 0xD1, CHR 0xD2, CHR 0xD3, CHR 0xD4, CHR 0xD5, CHR 0xD6,
      CHR 0xD8, CHR 0xD9, CHR 0xDA, CHR 0xDB, CHR 0xDC, CHR 0xDD, CHR 0xDE]"

definition lower_chars :: string where
  "lower_chars = ''abcdefghijklmnopqrstuvwxyz'' @
     [CHR 0xE0, CHR 0xE1, CHR 0xE2, CHR 0xE3, CHR 0xE4, CHR 0xE5, CHR 0xE6, CHR 0xE7,
      CHR 0xE8, CHR 0xE9, CHR 0xEA, CHR 0xEB, CHR 0xEC, CHR 0xED, CHR 0xEE, CHR 0xEF,
      CHR 0xF0, CHR 0xF1, CHR 0xF2, CHR 0xF3, CHR 0xF4, CHR 0xF5, CHR 0xF6,
      CHR 0xF8, CHR 0xF9, CHR 0xFA, CHR 0xFB, CHR 0xFC, CHR 0xFD, CHR 0xFE]"

definition lower_char :: "char \<Rightarrow> char" where
  "lower_char c = (case map_of (zip upper_chars lower_chars) c of None \<Rightarrow> c | Some l \<Rightarrow> l)"

definition lower :: "string \<Rightarrow> string" where
  "lower s = map lower_char s"

text \<open>\<open>s.strip()\<close>: the characters for which \<open>str.isspace\<close> holds are removed at both ends.\<close>

definition isspace :: "char \<Rightarrow> bool" where
  "isspace c \<longleftrightarrow> c \<in> set
     [CHR 0x09, CHR 0x0A, CHR 0x0B, CHR 0x0C, CHR 0x0D, CHR 0x1C, CHR 0x1D, CHR 0x1E, CHR 0x1F,
      CHR 0x20, CHR 0x85, CHR 0xA0]"

definition strip :: "string \<Rightarrow> string" where
  "strip s = rev (dropWhile isspace (rev (dropWhile isspace s)))"

text \<open>
  \<open>os.path.basename\<close> on POSIX: everything after the last slash
  (\<open>i = p.rfind('/') + 1; return p[i:]\<close>).
\<close>

definition basename :: "string \<Rightarrow> string" where
  "basename p = rev (takeWhile (\<lambda>c. c \<noteq> CHR ''/'') (rev p))"

text \<open>\<open>str(n)\<close> for an integer, as an f-string formats it.\<close>

definition digit_char :: "nat \<Rightarrow> char" where
  "digit_char d = ''0123456789'' ! d"

function str_nat :: "nat \<Rightarrow> string" where
  "str_nat n = (if n < 10 then [digit_char n] else str_nat (n div 10) @ [digit_char (n mod 10)])"
  by pat_completeness auto
termination
  by (relation "measure (\<lambda>n. n)") auto

declare str_nat.simps [simp del]

definition str_int :: "int \<Rightarrow> string" where
  "str_int i = (if i < 0 then CHR ''-'' # str_nat (nat (- i)) else str_nat (nat i))"

text \<open>
  \<open>uuid.uuid4().hex\<close>: the 128-bit value printed as 32 lower-case hexadecimal digits,
  most significant first (\<open>'%032x' % self.int\<close>).
\<close>

definition hex_char :: "nat \<Rightarrow> char" where
  "hex_char d = ''0123456789abcdef'' ! d"

primrec hex_digits :: "nat \<Rightarrow> nat \<Rightarrow> string" where
  "hex_digits 0 n = []"
| "hex_digits (Suc k) n = hex_digits k (n div 16) @ [hex_char (n mod 16)]"

definition uuid_hex :: "128 word \<Rightarrow> string" where
  "uuid_hex u = hex_digits 32 (unat u)"


section \<open>Exceptions, the HTTP response, and the environment\<close>

text \<open>
  The exceptions that can reach the program. \<open>requests.exceptions.RequestException\<close>
  derives from \<open>IOError\<close>, which is \<open>OSError\<close>, so a handler for \<open>OSError\<close> catches it
  too. Each exception carries its text (\<open>str(e)\<close>).
\<close>

datatype exn =
    RequestException string
  | OSError string
  | OtherException string

fun exn_text :: "exn \<Rightarrow> string" where
  "exn_text (RequestException s) = s"
| "exn_text (OSError s) = s"
| "exn_text (OtherException s) = s"

fun is_RequestException :: "exn \<Rightarrow> bool" where
  "is_RequestException (RequestException _) = True"
| "is_RequestException _ = False"

fun is_OSError :: "exn \<Rightarrow> bool" where
  "is_OSError (RequestException _) = True"
| "is_OSError (OSError _) = True"
| "is_OSError (OtherException _) = False"

text \<open>The two fields of \<open>urllib.parse.ParseResult\<close> that the program reads.\<close>

record parse_result =
  scheme :: string
  path :: string

text \<open>
  A \<open>requests.Response\<close> opened with \<open>stream=True\<close>: status line, the value of the
  \<open>Content-Type\<close> header when there is one, and the body as \<open>iter_content(8192)\<close>
  delivers it: the chunks in arrival order, then possibly an exception that ends the
  iteration (a broken connection or a read timeout).
\<close>

record response =
  status_code :: nat
  reason :: string
  resp_url :: string
  content_type_header :: "string option"
  chunks :: "bytes list"
  stream_error :: "exn option"

text \<open>
  \<open>Response.raise_for_status\<close> of the requests library: it builds a message for a
  status from 400 to 499 and from 500 to 599, and raises an \<open>HTTPError\<close> (a
  \<open>RequestException\<close>) with it when there is one.
\<close>

definition http_error_msg :: "response \<Rightarrow> string" where
  "http_error_msg r =
     (if 400 \<le> status_code r \<and> status_code r < 500
      then str_nat (status_code r) @ '' Client Error: '' @ reason r @ '' for url: '' @ resp_url r
      else if 500 \<le> status_code r \<and> status_code r < 600
      then str_nat (status_code r) @ '' Server Error: '' @ reason r @ '' for url: '' @ resp_url r
      else [])"

definition raise_for_status :: "response \<Rightarrow> exn option" where
  "raise_for_status r =
     (if http_error_msg r \<noteq> [] then Some (RequestException (http_error_msg r)) else None)"

text \<open>
  Everything outside the program that one run observes: the URL parser and the
  percent-decoder of \<open>urllib.parse\<close>, the clock (\<open>int(time.time())\<close>), the random UUID,
  the network (\<open>requests.get(url, stream=True, timeout=15)\<close> either raises or returns a
  response), the line typed at the prompt, and which filesystem operations fail.
\<close>

record env =
  urlparse :: "string \<Rightarrow> exn + parse_result"
  unquote :: "string \<Rightarrow> string"
  now :: int
  uuid4 :: "128 word"
  requests_get :: "string \<Rightarrow> exn + response"
  stdin_line :: "exn + string"
  mkdir_error :: "exn option"
  open_error :: "string \<Rightarrow> exn option"
  write_error :: "string \<Rightarrow> bytes \<Rightarrow> bytes \<Rightarrow> exn option"


section \<open>The Filename Resolver\<close>

definition COMMON_IMAGE_EXT :: "string \<rightharpoonup> string" where
  "COMMON_IMAGE_EXT = map_of
     [(''image/jpeg'', ''.jpg''),
      (''image/pjpeg'', ''.jpg''),
      (''image/png'', ''.png''),
      (''image/gif'', ''.gif''),
      (''image/webp'', ''.webp''),
      (''image/bmp'', ''.bmp''),
      (''image/svg+xml'', ''.svg''),
      (''image/x-icon'', ''.ico'')]"

text \<open>
  \<open>response.headers.get("Content-Type", "").split(";")[0].lower()\<close>, the expression
  that both \<open>get_filename_from_url\<close> and \<open>download_image\<close> evaluate.
\<close>

definition declared_content_type :: "response \<Rightarrow> string" where
  "declared_content_type r =
     lower (hd (str_split CHR '';'' (case content_type_header r of None \<Rightarrow> [] | Some v \<Rightarrow> v)))"

text \<open>Python's truth test on the looked-up extension: \<open>None\<close> and \<open>""\<close> are false.\<close>

definition falsy :: "string option \<Rightarrow> bool" where
  "falsy ext = (ext = None \<or> ext = Some [])"

definition get_filename_from_url :: "env \<Rightarrow> string \<Rightarrow> response \<Rightarrow> exn + string" where
  "get_filename_from_url env url resp =
     (case urlparse env url of
        Inl e \<Rightarrow> Inl e
      | Inr parsed \<Rightarrow>
          let p = unquote env (path parsed);
              name = basename p
          in if name \<noteq> [] \<and> CHR ''.'' \<in> set name then Inr name
             else
               let content_type = declared_content_type resp;
                   ext0 = COMMON_IMAGE_EXT content_type;
                   ext1 = (if falsy ext0 \<and> startswith ''image/'' content_type
                           then Some (''.'' @ last (str_split CHR ''/'' content_type))
                           else ext0);
                   ext2 = (case ext1 of
                             None \<Rightarrow> ''.jpg''
                           | Some e \<Rightarrow> if e = [] then ''.jpg'' else e);
                   timestamp = now env;
                   short_id = take 6 (uuid_hex (uuid4 env))
               in Inr (''image_'' @ str_int timestamp @ ''_'' @ short_id @ ext2))"


section \<open>The world the program acts on\<close>

text \<open>
  Each \<open>print\<close> of the program is one message; the interpolated values are kept.
  \<^item> \<open>Prompt\<close>: \<open>Enter the image URL (http/https):\<close>, written by \<open>input\<close>
  \<^item> \<open>NetworkErrorMsg e\<close>: \<open>[Error] Network or request error: {e}\<close>
  \<^item> \<open>NotAnImageMsg ct\<close>: \<open>[Error] The URL does not appear to be an image (Content-Type: {ct}).\<close>
  \<^item> \<open>SaveFailedMsg e\<close>: \<open>[Error] Failed to save image: {e}\<close>
  \<^item> \<open>NoUrlMsg\<close>: \<open>No URL entered. Exiting.\<close>
  \<^item> \<open>BadSchemeMsg\<close>: \<open>Please enter a valid HTTP or HTTPS URL.\<close>
  \<^item> \<open>DownloadingMsg\<close>: \<open>Downloading... this may take a few seconds.\<close>
  \<^item> \<open>SavedMsg p\<close>: \<open>Image saved to: {p}\<close>, after a check-mark sign
  \<^item> \<open>ShareHintMsg\<close>: \<open>You can share images from the Fetched_Images folder later.\<close>
  \<^item> \<open>FailedMsg\<close>: \<open>Image download failed. See error message above.\<close>, after a
    cross-mark sign

  In the vocabulary of the specification, a run of the Downloader that prints
  \<open>NetworkErrorMsg e\<close>, \<open>NotAnImageMsg ct\<close> or \<open>SaveFailedMsg e\<close> and returns \<open>None\<close>
  has the outcome NetworkError, NotAnImage or WriteError with that detail; a run that
  returns a path has the outcome Success.
\<close>

datatype message =
    Prompt
  | NetworkErrorMsg string
  | NotAnImageMsg string
  | SaveFailedMsg string
  | NoUrlMsg
  | BadSchemeMsg
  | DownloadingMsg
  | SavedMsg string
  | ShareHintMsg
  | FailedMsg

text \<open>
  The state a run changes: the files (path to content), the directories created, the
  lines printed, and the URLs for which a GET was issued.
\<close>

record world =
  files :: "string \<rightharpoonup> bytes"
  dirs :: "string set"
  printed :: "message list"
  get_calls :: "string list"

definition print :: "message \<Rightarrow> world \<Rightarrow> world" where
  "print m w = w\<lparr>printed := printed w @ [m]\<rparr>"

definition FETCH_DIR :: string where
  "FETCH_DIR = ''Fetched_Images''"

text \<open>
  \<open>FETCH_DIR / filename\<close> for a name without a slash: \<open>pathlib\<close> drops a segment that
  is \<open>.\<close> or empty.
\<close>

definition path_join :: "string \<Rightarrow> string \<Rightarrow> string" where
  "path_join d name = (if name = [] \<or> name = ''.'' then d else d @ ''/'' @ name)"

text \<open>\<open>FETCH_DIR.mkdir(parents=True, exist_ok=True)\<close>: raises what the filesystem raises.\<close>

definition ensure_fetch_dir :: "env \<Rightarrow> world \<Rightarrow> (exn + unit) \<times> world" where
  "ensure_fetch_dir env w =
     (case mkdir_error env of
        Some e \<Rightarrow> (Inl e, w)
      | None \<Rightarrow> (Inr (), w\<lparr>dirs := insert FETCH_DIR (dirs w)\<rparr>))"


section \<open>The Downloader\<close>

text \<open>
  The loop \<open>for chunk in resp.iter_content(chunk_size=8192): if chunk: f.write(chunk)\<close>:
  the content written so far is threaded through; a failing write ends the loop with
  its exception and leaves what was written before.
\<close>

fun write_chunks :: "env \<Rightarrow> string \<Rightarrow> bytes \<Rightarrow> bytes list \<Rightarrow> exn option \<times> bytes" where
  "write_chunks env filepath content [] = (None, content)"
| "write_chunks env filepath content (chunk # rest) =
     (if chunk = [] then write_chunks env filepath content rest
      else (case write_error env filepath content chunk of
              Some e \<Rightarrow> (Some e, content)
            | None \<Rightarrow> write_chunks env filepath (content @ chunk) rest))"

text \<open>
  The \<open>with open(filepath, "wb")\<close> block: opening creates or truncates the file, the
  chunks are written, and the iterator may raise once the chunks it delivered are
  consumed. The result is the exception that left the block, if any.
\<close>

definition save_body :: "env \<Rightarrow> world \<Rightarrow> string \<Rightarrow> response \<Rightarrow> exn option \<times> world" where
  "save_body env w filepath resp =
     (case open_error env filepath of
        Some e \<Rightarrow> (Some e, w)
      | None \<Rightarrow>
          (case write_chunks env filepath [] (chunks resp) of
             (Some e, content) \<Rightarrow> (Some e, w\<lparr>files := (files w)(filepath \<mapsto> content)\<rparr>)
           | (None, content) \<Rightarrow> (stream_error resp, w\<lparr>files := (files w)(filepath \<mapsto> content)\<rparr>)))"

text \<open>
  \<open>download_image\<close> returns the saved path or \<open>None\<close>; \<open>Inl\<close> is an exception that no
  handler of the function catches.
\<close>

definition download_image :: "env \<Rightarrow> world \<Rightarrow> string \<Rightarrow> (exn + string option) \<times> world" where
  "download_image env w url =
     (let w1 = w\<lparr>get_calls := get_calls w @ [url]\<rparr>;
          attempt = (case requests_get env url of
                       Inl e \<Rightarrow> Inl e
                     | Inr resp \<Rightarrow>
                         (case raise_for_status resp of
                            Some e \<Rightarrow> Inl e
                          | None \<Rightarrow> Inr resp))
      in case attempt of
           Inl e \<Rightarrow>
             if is_RequestException e
             then (Inr None, print (NetworkErrorMsg (exn_text e)) w1)
             else (Inl e, w1)
         | Inr resp \<Rightarrow>
             let content_type = declared_content_type resp
             in if \<not> startswith ''image'' content_type
                then (Inr None, print (NotAnImageMsg content_type) w1)
                else
                  (case get_filename_from_url env url resp of
                     Inl e \<Rightarrow> (Inl e, w1)
                   | Inr filename \<Rightarrow>
                       let filepath = path_join FETCH_DIR filename
                       in (case save_body env w1 filepath resp of
                             (None, w2) \<Rightarrow> (Inr (Some filepath), w2)
                           | (Some e, w2) \<Rightarrow>
                               if is_OSError e
                               then (Inr None, print (SaveFailedMsg (exn_text e)) w2)
                               else (Inl e, w2))))"


section \<open>The command line\<close>

text \<open>
  \<open>main\<close>: \<open>Inr ()\<close> when it returns, \<open>Inl e\<close> when the exception \<open>e\<close> leaves it. A
  \<open>Path\<close> is always true, so \<open>if saved_path\<close> tests for \<open>None\<close>.
\<close>

definition main :: "env \<Rightarrow> world \<Rightarrow> (exn + unit) \<times> world" where
  "main env w =
     (case ensure_fetch_dir env w of
        (Inl e, w1) \<Rightarrow> (Inl e, w1)
      | (Inr _, w1) \<Rightarrow>
          let w2 = print Prompt w1
          in (case stdin_line env of
                Inl e \<Rightarrow> (Inl e, w2)
              | Inr line \<Rightarrow>
                  let url = strip line
                  in if url = [] then (Inr (), print NoUrlMsg w2)
                     else
                       (case urlparse env url of
                          Inl e \<Rightarrow> (Inl e, w2)
                        | Inr parsed \<Rightarrow>
                            if scheme parsed \<notin> {''http'', ''https''}
                            then (Inr (), print BadSchemeMsg w2)
                            else
                              (case download_image env (print DownloadingMsg w2) url of
                                 (Inl e, w3) \<Rightarrow> (Inl e, w3)
                               | (Inr (Some saved_path), w3) \<Rightarrow>
                                   (Inr (), print ShareHintMsg (print (SavedMsg saved_path) w3))
                               | (Inr None, w3) \<Rightarrow> (Inr (), print FailedMsg w3)))))"

text \<open>
  The exit status of the script: 0 when \<open>main\<close> returns, 1 when an exception leaves it
  (the interpreter prints the traceback).
\<close>

definition exit_code :: "exn + unit \<Rightarrow> nat" where
  "exit_code r = (case r of Inl _ \<Rightarrow> 1 | Inr _ \<Rightarrow> 0)"


section \<open>Notions of the specification, and example runs\<close>

text \<open>The final segment of a path: what follows its last slash.\<close>

definition final_segment :: "string \<Rightarrow> string" where
  "final_segment p = last (str_split CHR ''/'' p)"

text \<open>
  The declared content type as the Resolver reads it: parameters after the first
  semicolon dropped, then lower-cased.
\<close>

definition normalised_content_type :: "string \<Rightarrow> string" where
  "normalised_content_type header = lower (takeWhile (\<lambda>c. c \<noteq> CHR '';'') header)"

text \<open>
  The subtype of a content type: what follows its last slash. For \<open>image/\<close> followed by
  a text without a slash it is that text.
\<close>

definition subtype :: "string \<Rightarrow> string" where
  "subtype ct = last (str_split CHR ''/'' ct)"

text \<open>
  The ordered fallback for the extension: the mapping, then the subtype of an
  \<open>image/\<close> type, then \<open>.jpg\<close>.
\<close>

definition fallback_ext :: "string \<Rightarrow> string" where
  "fallback_ext ct =
     (case COMMON_IMAGE_EXT ct of
        Some e \<Rightarrow> e
      | None \<Rightarrow> if startswith ''image/'' ct then ''.'' @ subtype ct else ''.jpg'')"

text \<open>
  The pattern of a generated name with extension \<open>ext\<close>: \<open>image_\<close>, one or more decimal
  digits, an underscore, exactly six lower-case hexadecimal digits, then \<open>ext\<close>.
\<close>

definition is_digit :: "char \<Rightarrow> bool" where
  "is_digit c \<longleftrightarrow> c \<in> set ''0123456789''"

definition is_lower_hex :: "char \<Rightarrow> bool" where
  "is_lower_hex c \<longleftrightarrow> c \<in> set ''0123456789abcdef''"

definition generated_name_pattern :: "string \<Rightarrow> string \<Rightarrow> bool" where
  "generated_name_pattern ext s \<longleftrightarrow>
     startswith ''image_'' s \<and>
     (let rest = drop 6 s;
          ds = takeWhile is_digit rest;
          rest' = dropWhile is_digit rest;
          hs = take 6 (drop 1 rest')
      in ds \<noteq> [] \<and> startswith ''_'' rest' \<and> length hs = 6 \<and> list_all is_lower_hex hs \<and>
         drop 7 rest' = ext)"

text \<open>
  An example environment. The parser is given by its value on the URLs of the examples
  (what \<open>urllib.parse.urlparse\<close> does for them): on \<open>ftp://[::1\<close>, whose bracket is not
  closed, it raises \<open>ValueError('Invalid IPv6 URL')\<close>. The paths hold no percent sign, so
  decoding leaves them as they are.
\<close>

definition example_urlparse :: "string \<Rightarrow> exn + parse_result" where
  "example_urlparse u =
     (if u = ''ftp://[::1'' then Inl (OtherException ''Invalid IPv6 URL'')
      else
        (case map_of
           [(''http://example.com/photos/cat.png'', \<lparr>scheme = ''http'', path = ''/photos/cat.png''\<rparr>),
            (''https://example.com/photo'', \<lparr>scheme = ''https'', path = ''/photo''\<rparr>),
            (''ftp://example.com/cat.png'', \<lparr>scheme = ''ftp'', path = ''/cat.png''\<rparr>)] u of
           Some r \<Rightarrow> Inr r
         | None \<Rightarrow> Inl (OtherException ''ValueError'')))"

definition example_response :: response where
  "example_response =
     \<lparr>status_code = 200, reason = ''OK'', resp_url = ''https://example.com/photo'',
      content_type_header = Some ''image/png'',
      chunks = [[0x89, 0x50], [], [0x4E, 0x47]], stream_error = None\<rparr>"

definition example_env :: env where
  "example_env =
     \<lparr>urlparse = example_urlparse, unquote = (\<lambda>s. s), now = 1700000000,
      uuid4 = 0x123456789abc4def8123456789abcdef,
      requests_get = (\<lambda>u. Inr example_response),
      stdin_line = Inr ''https://example.com/photo'',
      mkdir_error = None, open_error = (\<lambda>p. None), write_error = (\<lambda>p c b. None)\<rparr>"

text \<open>A second run in the same second whose UUID differs only after its first 24 bits.\<close>

definition example_env2 :: env where
  "example_env2 = example_env\<lparr>uuid4 := 0x123456fedcba4123a0123456789abcde\<rparr>"

text \<open>Responses of the examples: a missing page, and a 304 answer without a body.\<close>

definition not_found_response :: response where
  "not_found_response =
     \<lparr>status_code = 404, reason = ''Not Found'', resp_url = ''https://example.com/photo'',
      content_type_header = Some ''text/html'',
      chunks = [[0x3C, 0x68, 0x31, 0x3E]], stream_error = None\<rparr>"

definition not_modified_response :: response where
  "not_modified_response =
     \<lparr>status_code = 304, reason = ''Not Modified'', resp_url = ''https://example.com/photo'',
      content_type_header = Some ''image/png'',
      chunks = [], stream_error = None\<rparr>"

definition empty_world :: world where
  "empty_world = \<lparr>files = Map.empty, dirs = {}, printed = [], get_calls = []\<rparr>"


section \<open>Properties of the string operations\<close>

lemma str_split_nonempty: "str_split sep s \<noteq> []"
  by (induction s) (auto split: list.splits)

lemma hd_str_split: "hd (str_split sep s) = takeWhile (\<lambda>c. c \<noteq> sep) s"
  by (induction s) (auto split: list.splits simp: str_split_nonempty)

lemma str_split_no_sep: "sep \<notin> set s \<Longrightarrow> str_split sep s = [s]"
  by (induction s) auto

lemma str_split_with_sep: "sep \<in> set s \<Longrightarrow> tl (str_split sep s) \<noteq> []"
  by (induction s) (auto simp: str_split_nonempty split: list.splits)

lemma last_str_split: "last (str_split sep s) = rev (takeWhile (\<lambda>c. c \<noteq> sep) (rev s))"
proof (induction s)
  case Nil
  then show ?case by simp
next
  case (Cons c cs)
  show ?case
  proof (cases "sep \<in> set cs")
    case True
    then have "tl (str_split sep cs) \<noteq> []" by (rule str_split_with_sep)
    then have "last (str_split sep (c # cs)) = last (str_split sep cs)"
      by (auto split: list.splits)
    with True Cons.IH show ?thesis
      by (auto simp: takeWhile_append)
  next
    case False
    then have "str_split sep cs = [cs]" by (rule str_split_no_sep)
    with False show ?thesis
      by (auto simp: takeWhile_append)
  qed
qed

lemma distinct_digits: "distinct ''0123456789''"
  by simp

lemma digit_char_inj: "a < 10 \<Longrightarrow> b < 10 \<Longrightarrow> digit_char a = digit_char b \<Longrightarrow> a = b"
  unfolding digit_char_def
  using nth_eq_iff_index_eq [OF distinct_digits, of a b] by simp

lemma digit_char_in: "d < 10 \<Longrightarrow> digit_char d \<in> set ''0123456789''"
  unfolding digit_char_def
  using nth_mem [of d "''0123456789''"] by simp

lemma str_nat_nonempty: "str_nat n \<noteq> []"
  by (subst str_nat.simps) simp

lemma str_nat_digits: "set (str_nat n) \<subseteq> set ''0123456789''"
proof (induction n rule: str_nat.induct)
  case (1 n)
  show ?case
  proof (cases "n < 10")
    case True
    then show ?thesis
      using digit_char_in [of n] by (subst str_nat.simps) simp
  next
    case False
    have "n mod 10 < 10" by simp
    then have "digit_char (n mod 10) \<in> set ''0123456789''" by (rule digit_char_in)
    with False "1.IH" show ?thesis
      by (subst str_nat.simps) simp
  qed
qed

lemma str_nat_inj: "str_nat m = str_nat n \<Longrightarrow> m = n"
proof (induction m arbitrary: n rule: str_nat.induct)
  case (1 m)
  show ?case
  proof (cases "m < 10")
    case m: True
    show ?thesis
    proof (cases "n < 10")
      case True
      with m "1.prems" show ?thesis
        by (simp add: str_nat.simps [of m] str_nat.simps [of n] digit_char_inj)
    next
      case False
      with m "1.prems" str_nat_nonempty [of "n div 10"] show ?thesis
        by (simp add: str_nat.simps [of m] str_nat.simps [of n] Cons_eq_append_conv)
    qed
  next
    case m: False
    show ?thesis
    proof (cases "n < 10")
      case True
      with m "1.prems" str_nat_nonempty [of "m div 10"] show ?thesis
        by (simp add: str_nat.simps [of m] str_nat.simps [of n] append_eq_Cons_conv)
    next
      case False
      with m "1.prems" have e: "str_nat (m div 10) = str_nat (n div 10)"
        and d: "digit_char (m mod 10) = digit_char (n mod 10)"
        by (simp_all add: str_nat.simps [of m] str_nat.simps [of n])
      from "1.IH" [OF m e] have "m div 10 = n div 10" .
      moreover from d have "m mod 10 = n mod 10"
        by (intro digit_char_inj) simp_all
      ultimately show ?thesis
        by (metis div_mult_mod_eq)
    qed
  qed
qed

lemma basename_final_segment: "basename p = final_segment p"
  by (simp add: basename_def final_segment_def last_str_split)


lemma str_int_inj: "str_int i = str_int j \<Longrightarrow> i = j"
proof -
  have nd: "CHR ''-'' \<noteq> hd (str_nat n)" for n
    using str_nat_digits [of n] str_nat_nonempty [of n] by (cases "str_nat n") auto
  assume e: "str_int i = str_int j"
  show ?thesis
  proof (cases "i < 0")
    case i: True
    show ?thesis
    proof (cases "j < 0")
      case True
      with i e have "nat (- i) = nat (- j)" by (simp add: str_int_def str_nat_inj)
      with i True show ?thesis by simp
    next
      case False
      with i e have "CHR ''-'' # str_nat (nat (- i)) = str_nat (nat j)" by (simp add: str_int_def)
      then have "CHR ''-'' = hd (str_nat (nat j))" by (metis list.sel(1))
      with nd [of "nat j"] show ?thesis by blast
    qed
  next
    case i: False
    show ?thesis
    proof (cases "j < 0")
      case True
      with i e have "str_nat (nat i) = CHR ''-'' # str_nat (nat (- j))" by (simp add: str_int_def)
      then have "CHR ''-'' = hd (str_nat (nat i))" by (metis list.sel(1))
      with nd [of "nat i"] show ?thesis by blast
    next
      case False
      with i e have "nat i = nat j" by (simp add: str_int_def str_nat_inj)
      with i False show ?thesis by simp
    qed
  qed
qed

lemma str_nat_is_digit: "c \<in> set (str_nat n) \<Longrightarrow> is_digit c"
  using str_nat_digits [of n] unfolding is_digit_def by blast

lemma str_int_no_underscore: "CHR ''_'' \<notin> set (str_int i)"
proof
  assume "CHR ''_'' \<in> set (str_int i)"
  then have "CHR ''_'' \<in> set (str_nat (nat (- i))) \<or> CHR ''_'' \<in> set (str_nat (nat i))"
    by (simp add: str_int_def split: if_splits)
  then have "is_digit CHR ''_''"
    using str_nat_is_digit by blast
  then show False
    by (simp add: is_digit_def)
qed

lemma str_int_nonneg_digits:
  assumes "0 \<le> i"
  shows "str_int i \<noteq> [] \<and> (\<forall>c\<in>set (str_int i). is_digit c)"
proof -
  from assms have "str_int i = str_nat (nat i)"
    by (simp add: str_int_def)
  then show ?thesis
    using str_nat_nonempty [of "nat i"] str_nat_is_digit [of _ "nat i"] by auto
qed

lemma length_hex_digits: "length (hex_digits k n) = k"
  by (induction k arbitrary: n) auto

lemma hex_char_lower_hex: "d < 16 \<Longrightarrow> is_lower_hex (hex_char d)"
  unfolding hex_char_def is_lower_hex_def
  using nth_mem [of d "''0123456789abcdef''"] by simp

lemma hex_digits_lower_hex: "list_all is_lower_hex (hex_digits k n)"
  by (induction k arbitrary: n) (auto simp: hex_char_lower_hex)

lemma short_id_shape:
  "length (take 6 (uuid_hex u)) = 6 \<and> list_all is_lower_hex (take 6 (uuid_hex u))"
proof -
  have "list_all is_lower_hex (uuid_hex u)"
    by (simp add: uuid_hex_def hex_digits_lower_hex)
  then have "list_all is_lower_hex (take 6 (uuid_hex u))"
    by (auto simp: list_all_iff dest: in_set_takeD)
  then show ?thesis
    by (simp add: uuid_hex_def length_hex_digits)
qed

lemma hex_digits_add: "hex_digits (a + b) n = hex_digits a (n div 16 ^ b) @ hex_digits b n"
proof (induction b arbitrary: n)
  case 0
  then show ?case by simp
next
  case (Suc b)
  have "hex_digits (a + Suc b) n = hex_digits (a + b) (n div 16) @ [hex_char (n mod 16)]"
    by simp
  also have "\<dots> = hex_digits a (n div 16 div 16 ^ b) @ hex_digits b (n div 16) @ [hex_char (n mod 16)]"
    by (simp add: Suc.IH)
  finally show ?case
    by (simp add: div_mult2_eq)
qed

lemma hex_digits_6:
  "hex_digits 6 m =
     [hex_char (m div 16 div 16 div 16 div 16 div 16 mod 16),
      hex_char (m div 16 div 16 div 16 div 16 mod 16),
      hex_char (m div 16 div 16 div 16 mod 16),
      hex_char (m div 16 div 16 mod 16),
      hex_char (m div 16 mod 16),
      hex_char (m mod 16)]"
proof -
  have n: "Suc (Suc (Suc (Suc (Suc (Suc 0))))) = 6" by simp
  have "hex_digits (Suc (Suc (Suc (Suc (Suc (Suc 0)))))) m =
     [hex_char (m div 16 div 16 div 16 div 16 div 16 mod 16),
      hex_char (m div 16 div 16 div 16 div 16 mod 16),
      hex_char (m div 16 div 16 div 16 mod 16),
      hex_char (m div 16 div 16 mod 16),
      hex_char (m div 16 mod 16),
      hex_char (m mod 16)]"
    by simp
  then show ?thesis unfolding n .
qed

lemma short_id_eq: "take 6 (uuid_hex u) = hex_digits 6 (unat u div 16 ^ 26)"
proof -
  have "hex_digits 32 n = hex_digits 6 (n div 16 ^ 26) @ hex_digits 26 n" for n
    using hex_digits_add [of 6 26 n] by simp
  then show ?thesis
    by (simp add: uuid_hex_def length_hex_digits)
qed

lemma example_short_id: "take 6 (uuid_hex (uuid4 example_env)) = ''123456''"
  by (simp add: example_env_def short_id_eq hex_digits_6 hex_char_def)

lemma example_short_id2: "take 6 (uuid_hex (uuid4 example_env2)) = ''123456''"
  by (simp add: example_env2_def example_env_def short_id_eq hex_digits_6 hex_char_def)

lemma example_timestamp: "str_int (now example_env) = ''1700000000''"
  by (simp add: example_env_def str_int_def str_nat.simps digit_char_def)


section \<open>The Filename Resolver: claims\<close>

lemma COMMON_IMAGE_EXT_nonempty: "COMMON_IMAGE_EXT ct = Some e \<Longrightarrow> e \<noteq> []"
  by (auto simp: COMMON_IMAGE_EXT_def split: if_splits)

lemma declared_content_type_eq:
  "declared_content_type resp =
     normalised_content_type (case content_type_header resp of None \<Rightarrow> [] | Some v \<Rightarrow> v)"
  by (simp add: declared_content_type_def normalised_content_type_def hd_str_split)

lemma ext_chain:
  assumes "\<And>e. m = Some e \<Longrightarrow> e \<noteq> []"
  shows "(case (if falsy m \<and> b then Some (''.'' @ s) else m) of
            None \<Rightarrow> ''.jpg''
          | Some e \<Rightarrow> if e = [] then ''.jpg'' else e) =
         (case m of Some e \<Rightarrow> e | None \<Rightarrow> if b then ''.'' @ s else ''.jpg'')"
  using assms by (cases m) (simp_all add: falsy_def)

lemma generated_name:
  assumes "urlparse env url = Inr parsed"
    and "final_segment (unquote env (path parsed)) = [] \<or>
         CHR ''.'' \<notin> set (final_segment (unquote env (path parsed)))"
  shows "get_filename_from_url env url resp =
           Inr (''image_'' @ str_int (now env) @ ''_'' @ take 6 (uuid_hex (uuid4 env)) @
                fallback_ext (declared_content_type resp))"
proof -
  from assms(2)
  have c: "\<not> (final_segment (unquote env (path parsed)) \<noteq> [] \<and>
              CHR ''.'' \<in> set (final_segment (unquote env (path parsed))))"
    by blast
  note e = ext_chain [of "COMMON_IMAGE_EXT (declared_content_type resp)", OF COMMON_IMAGE_EXT_nonempty]
  show ?thesis
    unfolding get_filename_from_url_def Let_def fallback_ext_def subtype_def
      basename_final_segment
    by (simp only: assms(1) sum.case c if_False e)
qed

text \<open>
  C1. For every URL whose percent-decoded path has a non-empty final segment containing
  a dot, the Filename Resolver returns exactly that segment, whatever the response
  (and so whatever content type it declares).
\<close>

theorem C1_path_filename_returned:
  assumes "urlparse env url = Inr parsed"
    and "segment = final_segment (unquote env (path parsed))"
    and "segment \<noteq> []"
    and "CHR ''.'' \<in> set segment"
  shows "get_filename_from_url env url resp = Inr segment"
  using assms by (simp add: get_filename_from_url_def basename_final_segment)

theorem C1_path_filename_returned_witness:
  "get_filename_from_url example_env ''http://example.com/photos/cat.png''
     (example_response\<lparr>content_type_header := Some ''text/html''\<rparr>) = Inr ''cat.png''"
proof -
  have p: "urlparse example_env ''http://example.com/photos/cat.png'' =
             Inr \<lparr>scheme = ''http'', path = ''/photos/cat.png''\<rparr>"
    by (simp add: example_env_def example_urlparse_def)
  have s: "''cat.png'' = final_segment (unquote example_env
             (path \<lparr>scheme = ''http'', path = ''/photos/cat.png''\<rparr>))"
    by (simp add: example_env_def final_segment_def)
  show ?thesis
    using C1_path_filename_returned [OF p s] by simp
qed

lemma subtype_simple: "CHR ''/'' \<notin> set sub \<Longrightarrow> subtype (''image/'' @ sub) = sub"
  unfolding subtype_def last_str_split by (simp add: takeWhile_append)

text \<open>
  C2. When the URL path yields no usable filename (its final segment is empty or has no
  dot), the generated name ends in the extension given by the ordered fallback: the
  value of the fixed mapping if the content type (parameters after the semicolon
  dropped, lower-cased) is one of its keys; otherwise a dot followed by the subtype if
  the content type starts with \<open>image/\<close>; otherwise \<open>.jpg\<close>. The subtype is what follows
  the last slash, which for \<open>image/\<close> followed by a text without a slash is that text.
\<close>

theorem C2_extension_fallback:
  assumes "urlparse env url = Inr parsed"
    and "name = final_segment (unquote env (path parsed))"
    and "name = [] \<or> CHR ''.'' \<notin> set name"
    and "ct = normalised_content_type (case content_type_header resp of None \<Rightarrow> [] | Some v \<Rightarrow> v)"
  shows "get_filename_from_url env url resp =
           Inr (''image_'' @ str_int (now env) @ ''_'' @ take 6 (uuid_hex (uuid4 env)) @
                fallback_ext ct) \<and>
         (\<forall>sub. CHR ''/'' \<notin> set sub \<longrightarrow> subtype (''image/'' @ sub) = sub)"
proof (intro conjI allI impI)
  show "get_filename_from_url env url resp =
          Inr (''image_'' @ str_int (now env) @ ''_'' @ take 6 (uuid_hex (uuid4 env)) @
               fallback_ext ct)"
    using assms generated_name [of env url parsed resp]
    by (simp add: declared_content_type_eq)
next
  fix sub
  assume "CHR ''/'' \<notin> set sub"
  then show "subtype (''image/'' @ sub) = sub"
    by (rule subtype_simple)
qed

theorem C2_extension_fallback_witness:
  "get_filename_from_url example_env ''https://example.com/photo''
     (example_response\<lparr>content_type_header := Some ''Image/TIFF; q=1''\<rparr>) =
     Inr ''image_1700000000_123456.tiff'' \<and>
   get_filename_from_url example_env ''https://example.com/photo''
     (example_response\<lparr>content_type_header := Some ''image/jpeg''\<rparr>) =
     Inr ''image_1700000000_123456.jpg'' \<and>
   get_filename_from_url example_env ''https://example.com/photo''
     (example_response\<lparr>content_type_header := Some ''application/octet-stream''\<rparr>) =
     Inr ''image_1700000000_123456.jpg''"
proof -
  have p: "urlparse example_env ''https://example.com/photo'' =
             Inr \<lparr>scheme = ''https'', path = ''/photo''\<rparr>"
    by (simp add: example_env_def example_urlparse_def)
  have n: "''photo'' = final_segment (unquote example_env (path \<lparr>scheme = ''https'', path = ''/photo''\<rparr>))"
    by (simp add: example_env_def final_segment_def)
  have d: "''photo'' = [] \<or> CHR ''.'' \<notin> set ''photo''"
    by simp
  have t: "''image/tiff'' = normalised_content_type
             (case content_type_header (example_response\<lparr>content_type_header := Some ''Image/TIFF; q=1''\<rparr>) of
                None \<Rightarrow> [] | Some v \<Rightarrow> v)"
    by (simp add: normalised_content_type_def lower_def lower_char_def upper_chars_def lower_chars_def)
  have j: "''image/jpeg'' = normalised_content_type
             (case content_type_header (example_response\<lparr>content_type_header := Some ''image/jpeg''\<rparr>) of
                None \<Rightarrow> [] | Some v \<Rightarrow> v)"
    by (simp add: normalised_content_type_def lower_def lower_char_def upper_chars_def lower_chars_def)
  have a: "''application/octet-stream'' = normalised_content_type
             (case content_type_header (example_response\<lparr>content_type_header := Some ''application/octet-stream''\<rparr>) of
                None \<Rightarrow> [] | Some v \<Rightarrow> v)"
    by (simp add: normalised_content_type_def lower_def lower_char_def upper_chars_def lower_chars_def)
  have et: "fallback_ext ''image/tiff'' = ''.tiff''"
    by (simp add: fallback_ext_def COMMON_IMAGE_EXT_def startswith_def subtype_def)
  have ej: "fallback_ext ''image/jpeg'' = ''.jpg''"
    by (simp add: fallback_ext_def COMMON_IMAGE_EXT_def)
  have ea: "fallback_ext ''application/octet-stream'' = ''.jpg''"
    by (simp add: fallback_ext_def COMMON_IMAGE_EXT_def startswith_def)
  show ?thesis
    using C2_extension_fallback [OF p n d t] C2_extension_fallback [OF p n d j]
      C2_extension_fallback [OF p n d a]
    by (simp add: et ej ea example_short_id example_timestamp)
qed

lemma pattern_intro:
  assumes "ds \<noteq> []" and "\<forall>c\<in>set ds. is_digit c"
    and "length hs = 6" and "list_all is_lower_hex hs"
  shows "generated_name_pattern ext (''image_'' @ ds @ ''_'' @ hs @ ext)"
proof -
  have u: "\<not> is_digit CHR ''_''"
    by (simp add: is_digit_def)
  from assms(2) u have t: "takeWhile is_digit (ds @ CHR ''_'' # hs @ ext) = ds"
    by (simp add: takeWhile_append2)
  from assms(2) u have d: "dropWhile is_digit (ds @ CHR ''_'' # hs @ ext) = CHR ''_'' # hs @ ext"
    by (simp add: dropWhile_append2)
  have r: "drop 6 (''image_'' @ ds @ ''_'' @ hs @ ext) = ds @ CHR ''_'' # hs @ ext"
    by simp
  have s: "startswith ''image_'' (''image_'' @ ds @ ''_'' @ hs @ ext)"
    by (simp add: startswith_def)
  show ?thesis
    unfolding generated_name_pattern_def Let_def r t d
    using assms(1,3,4) s by (simp add: startswith_def)
qed

text \<open>
  C3. For a URL with no path extension and the declared content type \<open>image/png\<close>, with
  the clock at or after the epoch, the Filename Resolver returns
  \<open>image_<seconds>_<first six hexadecimal digits of the UUID>.png\<close>, which matches the
  pattern \<open>image_<digits>_<6 lower-case hex characters>.png\<close>.
\<close>

theorem C3_png_generated_name:
  assumes "urlparse env url = Inr parsed"
    and "name = final_segment (unquote env (path parsed))"
    and "name = [] \<or> CHR ''.'' \<notin> set name"
    and "normalised_content_type (case content_type_header resp of None \<Rightarrow> [] | Some v \<Rightarrow> v) =
           ''image/png''"
    and "0 \<le> now env"
  shows "\<exists>n. get_filename_from_url env url resp = Inr n \<and>
             n = ''image_'' @ str_int (now env) @ ''_'' @ take 6 (uuid_hex (uuid4 env)) @ ''.png'' \<and>
             generated_name_pattern ''.png'' n"
proof -
  have e: "fallback_ext ''image/png'' = ''.png''"
    by (simp add: fallback_ext_def COMMON_IMAGE_EXT_def)
  from assms(1-4) e
  have g: "get_filename_from_url env url resp =
             Inr (''image_'' @ str_int (now env) @ ''_'' @ take 6 (uuid_hex (uuid4 env)) @ ''.png'')"
    using generated_name [of env url parsed resp] by (simp add: declared_content_type_eq)
  have "generated_name_pattern ''.png''
          (''image_'' @ str_int (now env) @ ''_'' @ take 6 (uuid_hex (uuid4 env)) @ ''.png'')"
    using str_int_nonneg_digits [OF assms(5)] short_id_shape [of "uuid4 env"]
    by (intro pattern_intro) simp_all
  with g show ?thesis by blast
qed

theorem C3_png_generated_name_witness:
  "get_filename_from_url example_env ''https://example.com/photo'' example_response =
     Inr ''image_1700000000_123456.png'' \<and>
   generated_name_pattern ''.png'' ''image_1700000000_123456.png''"
proof -
  have p: "urlparse example_env ''https://example.com/photo'' =
             Inr \<lparr>scheme = ''https'', path = ''/photo''\<rparr>"
    by (simp add: example_env_def example_urlparse_def)
  have n: "''photo'' = final_segment (unquote example_env (path \<lparr>scheme = ''https'', path = ''/photo''\<rparr>))"
    by (simp add: example_env_def final_segment_def)
  have d: "''photo'' = [] \<or> CHR ''.'' \<notin> set ''photo''"
    by simp
  have c: "normalised_content_type
             (case content_type_header example_response of None \<Rightarrow> [] | Some v \<Rightarrow> v) = ''image/png''"
    by (simp add: example_response_def normalised_content_type_def lower_def lower_char_def
        upper_chars_def lower_chars_def)
  have t: "0 \<le> now example_env"
    by (simp add: example_env_def)
  show ?thesis
    using C3_png_generated_name [OF p n d c t]
    by (simp add: example_short_id example_timestamp)
qed

lemma takeWhile_until: "c \<notin> set a \<Longrightarrow> takeWhile (\<lambda>x. x \<noteq> c) (a @ c # r) = a"
  by (induction a) auto

lemma split_at_sep:
  assumes "c \<notin> set a" and "c \<notin> set b" and "a @ c # r = b @ c # r'"
  shows "a = b \<and> r = r'"
proof -
  from assms(1) have "takeWhile (\<lambda>x. x \<noteq> c) (a @ c # r) = a"
    by (rule takeWhile_until)
  moreover from assms(2) have "takeWhile (\<lambda>x. x \<noteq> c) (b @ c # r') = b"
    by (rule takeWhile_until)
  ultimately have "a = b"
    using assms(3) by simp
  with assms(3) show ?thesis by simp
qed

lemma generated_name_inj:
  assumes "length s1 = 6" and "length s2 = 6"
    and "''image_'' @ str_int t1 @ ''_'' @ s1 @ e1 = ''image_'' @ str_int t2 @ ''_'' @ s2 @ e2"
  shows "t1 = t2 \<and> s1 = s2 \<and> e1 = e2"
proof -
  from assms(3) have "str_int t1 @ CHR ''_'' # (s1 @ e1) = str_int t2 @ CHR ''_'' # (s2 @ e2)"
    by simp
  then have "str_int t1 = str_int t2 \<and> s1 @ e1 = s2 @ e2"
    by (intro split_at_sep [of "CHR ''_''"]) (simp_all add: str_int_no_underscore)
  with assms(1,2) show ?thesis
    by (simp add: str_int_inj)
qed

text \<open>
  C8, as the code has it. Two runs that generate a name (no path extension) produce the
  same name exactly when their timestamps agree, the first six hexadecimal digits of
  their UUIDs agree, and the extensions derived from their content types agree; so the
  names are distinct exactly when the timestamps differ, or those digits differ, or the
  extensions differ.
\<close>

theorem C8_generated_names_equal_iff:
  assumes "urlparse env1 url1 = Inr parsed1"
    and "final_segment (unquote env1 (path parsed1)) = [] \<or>
         CHR ''.'' \<notin> set (final_segment (unquote env1 (path parsed1)))"
    and "urlparse env2 url2 = Inr parsed2"
    and "final_segment (unquote env2 (path parsed2)) = [] \<or>
         CHR ''.'' \<notin> set (final_segment (unquote env2 (path parsed2)))"
  shows "get_filename_from_url env1 url1 resp1 = get_filename_from_url env2 url2 resp2 \<longleftrightarrow>
           now env1 = now env2 \<and>
           take 6 (uuid_hex (uuid4 env1)) = take 6 (uuid_hex (uuid4 env2)) \<and>
           fallback_ext (declared_content_type resp1) = fallback_ext (declared_content_type resp2)"
proof
  assume "get_filename_from_url env1 url1 resp1 = get_filename_from_url env2 url2 resp2"
  then have "''image_'' @ str_int (now env1) @ ''_'' @ take 6 (uuid_hex (uuid4 env1)) @
               fallback_ext (declared_content_type resp1) =
             ''image_'' @ str_int (now env2) @ ''_'' @ take 6 (uuid_hex (uuid4 env2)) @
               fallback_ext (declared_content_type resp2)"
    by (simp only: generated_name [OF assms(1,2)] generated_name [OF assms(3,4)] sum.inject)
  then show "now env1 = now env2 \<and>
             take 6 (uuid_hex (uuid4 env1)) = take 6 (uuid_hex (uuid4 env2)) \<and>
             fallback_ext (declared_content_type resp1) = fallback_ext (declared_content_type resp2)"
    using generated_name_inj [of "take 6 (uuid_hex (uuid4 env1))" "take 6 (uuid_hex (uuid4 env2))"]
      short_id_shape [of "uuid4 env1"] short_id_shape [of "uuid4 env2"]
    by blast
next
  assume "now env1 = now env2 \<and>
          take 6 (uuid_hex (uuid4 env1)) = take 6 (uuid_hex (uuid4 env2)) \<and>
          fallback_ext (declared_content_type resp1) = fallback_ext (declared_content_type resp2)"
  then show "get_filename_from_url env1 url1 resp1 = get_filename_from_url env2 url2 resp2"
    by (simp only: generated_name [OF assms(1,2)] generated_name [OF assms(3,4)])
qed

theorem C8_generated_names_equal_iff_witness:
  "get_filename_from_url example_env ''https://example.com/photo'' example_response \<noteq>
     get_filename_from_url (example_env\<lparr>now := 1700000001\<rparr>) ''https://example.com/photo''
       example_response \<and>
   get_filename_from_url example_env ''https://example.com/photo'' example_response =
     get_filename_from_url example_env2 ''https://example.com/photo'' example_response"
proof -
  have p: "urlparse example_env ''https://example.com/photo'' =
             Inr \<lparr>scheme = ''https'', path = ''/photo''\<rparr>"
    by (simp add: example_env_def example_urlparse_def)
  have p': "urlparse (example_env\<lparr>now := 1700000001\<rparr>) ''https://example.com/photo'' =
             Inr \<lparr>scheme = ''https'', path = ''/photo''\<rparr>"
    by (simp add: example_env_def example_urlparse_def)
  have p2: "urlparse example_env2 ''https://example.com/photo'' =
             Inr \<lparr>scheme = ''https'', path = ''/photo''\<rparr>"
    by (simp add: example_env2_def example_env_def example_urlparse_def)
  have n: "final_segment (unquote example_env (path \<lparr>scheme = ''https'', path = ''/photo''\<rparr>)) = [] \<or>
           CHR ''.'' \<notin> set (final_segment (unquote example_env
             (path \<lparr>scheme = ''https'', path = ''/photo''\<rparr>)))"
    by (simp add: example_env_def final_segment_def)
  have n': "final_segment (unquote (example_env\<lparr>now := 1700000001\<rparr>)
              (path \<lparr>scheme = ''https'', path = ''/photo''\<rparr>)) = [] \<or>
           CHR ''.'' \<notin> set (final_segment (unquote (example_env\<lparr>now := 1700000001\<rparr>)
             (path \<lparr>scheme = ''https'', path = ''/photo''\<rparr>)))"
    by (simp add: example_env_def final_segment_def)
  have n2: "final_segment (unquote example_env2 (path \<lparr>scheme = ''https'', path = ''/photo''\<rparr>)) = [] \<or>
           CHR ''.'' \<notin> set (final_segment (unquote example_env2
             (path \<lparr>scheme = ''https'', path = ''/photo''\<rparr>)))"
    by (simp add: example_env2_def example_env_def final_segment_def)
  have t: "now example_env \<noteq> now (example_env\<lparr>now := 1700000001\<rparr>)"
    by (simp add: example_env_def)
  have t2: "now example_env = now example_env2"
    by (simp add: example_env2_def)
  have u2: "take 6 (uuid_hex (uuid4 example_env)) = take 6 (uuid_hex (uuid4 example_env2))"
    by (simp only: example_short_id example_short_id2)
  from t have "get_filename_from_url example_env ''https://example.com/photo'' example_response \<noteq>
     get_filename_from_url (example_env\<lparr>now := 1700000001\<rparr>) ''https://example.com/photo''
       example_response"
    using C8_generated_names_equal_iff [OF p n p' n', of example_response example_response]
    by blast
  moreover from t2 u2
  have "get_filename_from_url example_env ''https://example.com/photo'' example_response =
     get_filename_from_url example_env2 ''https://example.com/photo'' example_response"
    using C8_generated_names_equal_iff [OF p n p2 n2, of example_response example_response]
    by blast
  ultimately show ?thesis by blast
qed

text \<open>
  C8 as stated fails: two runs in the same second whose UUIDs differ, but agree in
  their first six hexadecimal digits, generate the same name.
\<close>

theorem C8_same_name_counterexample:
  "uuid4 example_env \<noteq> uuid4 example_env2 \<and>
   get_filename_from_url example_env ''https://example.com/photo'' example_response =
     Inr ''image_1700000000_123456.png'' \<and>
   get_filename_from_url example_env2 ''https://example.com/photo'' example_response =
     Inr ''image_1700000000_123456.png''"
proof -
  have p: "urlparse example_env ''https://example.com/photo'' =
             Inr \<lparr>scheme = ''https'', path = ''/photo''\<rparr>"
    by (simp add: example_env_def example_urlparse_def)
  have p2: "urlparse example_env2 ''https://example.com/photo'' =
             Inr \<lparr>scheme = ''https'', path = ''/photo''\<rparr>"
    by (simp add: example_env2_def example_env_def example_urlparse_def)
  have n: "final_segment (unquote example_env (path \<lparr>scheme = ''https'', path = ''/photo''\<rparr>)) = [] \<or>
           CHR ''.'' \<notin> set (final_segment (unquote example_env
             (path \<lparr>scheme = ''https'', path = ''/photo''\<rparr>)))"
    by (simp add: example_env_def final_segment_def)
  have n2: "final_segment (unquote example_env2 (path \<lparr>scheme = ''https'', path = ''/photo''\<rparr>)) = [] \<or>
           CHR ''.'' \<notin> set (final_segment (unquote example_env2
             (path \<lparr>scheme = ''https'', path = ''/photo''\<rparr>)))"
    by (simp add: example_env2_def example_env_def final_segment_def)
  have c: "declared_content_type example_response = ''image/png''"
    by (simp add: declared_content_type_eq example_response_def normalised_content_type_def
        lower_def lower_char_def upper_chars_def lower_chars_def)
  have e: "fallback_ext ''image/png'' = ''.png''"
    by (simp add: fallback_ext_def COMMON_IMAGE_EXT_def)
  have t2: "str_int (now example_env2) = ''1700000000''"
    using example_timestamp by (simp add: example_env2_def)
  have u: "uuid4 example_env \<noteq> uuid4 example_env2"
    by (simp add: example_env2_def example_env_def)
  have a: "get_filename_from_url example_env ''https://example.com/photo'' example_response =
             Inr ''image_1700000000_123456.png''"
    by (simp add: generated_name [OF p n] c e example_short_id example_timestamp)
  have b: "get_filename_from_url example_env2 ''https://example.com/photo'' example_response =
             Inr ''image_1700000000_123456.png''"
    by (simp add: generated_name [OF p2 n2] c e example_short_id2 t2)
  from u a b show ?thesis by blast
qed


section \<open>The Downloader: claims\<close>

lemma http_error_msg_error_status:
  "400 \<le> status_code r \<Longrightarrow> status_code r < 600 \<Longrightarrow> http_error_msg r \<noteq> []"
  by (simp add: http_error_msg_def str_nat_nonempty)

lemma http_error_msg_other_status:
  "status_code r < 400 \<or> 600 \<le> status_code r \<Longrightarrow> http_error_msg r = []"
  by (auto simp: http_error_msg_def)

lemma download_image_get_raises:
  "requests_get env url = Inl (RequestException e) \<Longrightarrow>
   download_image env w url =
     (Inr None, print (NetworkErrorMsg e) (w\<lparr>get_calls := get_calls w @ [url]\<rparr>))"
  by (simp add: download_image_def Let_def)

lemma download_image_http_error:
  "requests_get env url = Inr resp \<Longrightarrow> http_error_msg resp \<noteq> [] \<Longrightarrow>
   download_image env w url =
     (Inr None, print (NetworkErrorMsg (http_error_msg resp)) (w\<lparr>get_calls := get_calls w @ [url]\<rparr>))"
  by (simp add: download_image_def Let_def raise_for_status_def)

lemma download_image_not_image:
  "requests_get env url = Inr resp \<Longrightarrow> http_error_msg resp = [] \<Longrightarrow>
   \<not> startswith ''image'' (declared_content_type resp) \<Longrightarrow>
   download_image env w url =
     (Inr None, print (NotAnImageMsg (declared_content_type resp))
                  (w\<lparr>get_calls := get_calls w @ [url]\<rparr>))"
  by (simp add: download_image_def Let_def raise_for_status_def)

lemma download_image_save:
  "requests_get env url = Inr resp \<Longrightarrow> http_error_msg resp = [] \<Longrightarrow>
   startswith ''image'' (declared_content_type resp) \<Longrightarrow>
   get_filename_from_url env url resp = Inr filename \<Longrightarrow>
   download_image env w url =
     (case save_body env (w\<lparr>get_calls := get_calls w @ [url]\<rparr>) (path_join FETCH_DIR filename) resp of
        (None, w2) \<Rightarrow> (Inr (Some (path_join FETCH_DIR filename)), w2)
      | (Some e, w2) \<Rightarrow>
          if is_OSError e then (Inr None, print (SaveFailedMsg (exn_text e)) w2) else (Inl e, w2))"
  by (simp add: download_image_def Let_def raise_for_status_def)

text \<open>
  C4, as the code has it. When the GET itself raises a \<open>RequestException\<close> (DNS,
  connection, timeout before the response is returned), or the response has a status
  from 400 to 599, the Downloader prints the network-error line with the text of the
  exception, returns \<open>None\<close>, and leaves the files as they were.
\<close>

theorem C4_network_error:
  assumes "requests_get env url = Inl (RequestException detail) \<or>
           (\<exists>resp. requests_get env url = Inr resp \<and>
                   400 \<le> status_code resp \<and> status_code resp < 600 \<and>
                   detail = http_error_msg resp)"
  shows "download_image env w url =
           (Inr None, print (NetworkErrorMsg detail) (w\<lparr>get_calls := get_calls w @ [url]\<rparr>)) \<and>
         files (snd (download_image env w url)) = files w"
proof -
  have "download_image env w url =
          (Inr None, print (NetworkErrorMsg detail) (w\<lparr>get_calls := get_calls w @ [url]\<rparr>))"
    using assms
  proof
    assume "requests_get env url = Inl (RequestException detail)"
    then show ?thesis by (rule download_image_get_raises)
  next
    assume "\<exists>resp. requests_get env url = Inr resp \<and>
                   400 \<le> status_code resp \<and> status_code resp < 600 \<and>
                   detail = http_error_msg resp"
    then obtain resp where r: "requests_get env url = Inr resp"
      and s: "400 \<le> status_code resp" "status_code resp < 600"
      and d: "detail = http_error_msg resp"
      by blast
    from s have "http_error_msg resp \<noteq> []" by (rule http_error_msg_error_status)
    with r d show ?thesis by (simp add: download_image_http_error)
  qed
  then show ?thesis by (simp add: print_def)
qed

theorem C4_network_error_witness:
  "download_image (example_env\<lparr>requests_get := (\<lambda>u. Inr not_found_response)\<rparr>) empty_world
     ''https://example.com/photo'' =
     (Inr None,
      \<lparr>files = Map.empty, dirs = {},
       printed = [NetworkErrorMsg ''404 Client Error: Not Found for url: https://example.com/photo''],
       get_calls = [''https://example.com/photo'']\<rparr>)"
proof -
  have m: "http_error_msg not_found_response =
             ''404 Client Error: Not Found for url: https://example.com/photo''"
    by (simp add: http_error_msg_def not_found_response_def str_nat.simps digit_char_def)
  have h: "requests_get (example_env\<lparr>requests_get := (\<lambda>u. Inr not_found_response)\<rparr>)
             ''https://example.com/photo'' =
             Inl (RequestException ''404 Client Error: Not Found for url: https://example.com/photo'') \<or>
           (\<exists>resp. requests_get (example_env\<lparr>requests_get := (\<lambda>u. Inr not_found_response)\<rparr>)
                     ''https://example.com/photo'' = Inr resp \<and>
                   400 \<le> status_code resp \<and> status_code resp < 600 \<and>
                   ''404 Client Error: Not Found for url: https://example.com/photo'' =
                     http_error_msg resp)"
    by (simp add: m) (simp add: not_found_response_def)
  show ?thesis
    using C4_network_error [OF h, of empty_world]
    by (simp add: print_def empty_world_def)
qed

lemma example_photo_name:
  assumes "urlparse env = example_urlparse" and "unquote env = (\<lambda>s. s)"
    and "now env = 1700000000" and "uuid4 env = 0x123456789abc4def8123456789abcdef"
  shows "get_filename_from_url env ''https://example.com/photo'' resp =
           Inr (''image_1700000000_123456'' @ fallback_ext (declared_content_type resp))"
proof -
  have p: "urlparse env ''https://example.com/photo'' = Inr \<lparr>scheme = ''https'', path = ''/photo''\<rparr>"
    by (simp add: assms(1) example_urlparse_def)
  have n: "final_segment (unquote env (path \<lparr>scheme = ''https'', path = ''/photo''\<rparr>)) = [] \<or>
           CHR ''.'' \<notin> set (final_segment (unquote env (path \<lparr>scheme = ''https'', path = ''/photo''\<rparr>)))"
    by (simp add: assms(2) final_segment_def)
  have t: "str_int (now env) = ''1700000000''"
    using example_timestamp by (simp add: assms(3) example_env_def)
  have u: "take 6 (uuid_hex (uuid4 env)) = ''123456''"
    using example_short_id by (simp add: assms(4) example_env_def)
  show ?thesis
    by (simp add: generated_name [OF p n] t u)
qed

lemma png_content_type:
  "content_type_header resp = Some ''image/png'' \<Longrightarrow> declared_content_type resp = ''image/png''"
  by (simp add: declared_content_type_eq normalised_content_type_def lower_def lower_char_def
      upper_chars_def lower_chars_def)

lemma png_fallback_ext: "fallback_ext ''image/png'' = ''.png''"
  by (simp add: fallback_ext_def COMMON_IMAGE_EXT_def)

text \<open>
  C4 as stated fails for a status that is neither 2xx nor an error status: a 304 answer
  declaring \<open>image/png\<close> passes \<open>raise_for_status\<close>, and the Downloader creates a file and
  returns its path.
\<close>

theorem C4_status_304_counterexample:
  "status_code not_modified_response = 304 \<and>
   download_image (example_env\<lparr>requests_get := (\<lambda>u. Inr not_modified_response)\<rparr>) empty_world
     ''https://example.com/photo'' =
     (Inr (Some ''Fetched_Images/image_1700000000_123456.png''),
      \<lparr>files = [''Fetched_Images/image_1700000000_123456.png'' \<mapsto> []], dirs = {},
       printed = [], get_calls = [''https://example.com/photo'']\<rparr>)"
proof -
  let ?env = "example_env\<lparr>requests_get := (\<lambda>u. Inr not_modified_response)\<rparr>"
  have r: "requests_get ?env ''https://example.com/photo'' = Inr not_modified_response"
    by simp
  have h: "http_error_msg not_modified_response = []"
    by (simp add: http_error_msg_def not_modified_response_def)
  have c: "declared_content_type not_modified_response = ''image/png''"
    by (rule png_content_type) (simp add: not_modified_response_def)
  have i: "startswith ''image'' (declared_content_type not_modified_response)"
    by (simp add: c startswith_def)
  have g: "get_filename_from_url ?env ''https://example.com/photo'' not_modified_response =
             Inr ''image_1700000000_123456.png''"
    using example_photo_name [of ?env not_modified_response]
    by (simp add: example_env_def c png_fallback_ext)
  have s: "save_body ?env (empty_world\<lparr>get_calls := get_calls empty_world @ [''https://example.com/photo'']\<rparr>)
             (path_join FETCH_DIR ''image_1700000000_123456.png'') not_modified_response =
           (None, \<lparr>files = [''Fetched_Images/image_1700000000_123456.png'' \<mapsto> []], dirs = {},
                   printed = [], get_calls = [''https://example.com/photo'']\<rparr>)"
    by (simp add: save_body_def example_env_def not_modified_response_def path_join_def
        FETCH_DIR_def empty_world_def)
  have "download_image ?env empty_world ''https://example.com/photo'' =
          (Inr (Some ''Fetched_Images/image_1700000000_123456.png''),
           \<lparr>files = [''Fetched_Images/image_1700000000_123456.png'' \<mapsto> []], dirs = {},
            printed = [], get_calls = [''https://example.com/photo'']\<rparr>)"
    by (simp only: download_image_save [OF r h i g] s) (simp add: path_join_def FETCH_DIR_def)
  then show ?thesis
    by (simp add: not_modified_response_def)
qed

text \<open>
  A failure of the network while the body is read is not a network error of the first
  handler: the iterator raises inside the block that writes the file, the handler for
  \<open>OSError\<close> reports it as a failure to save, and the file keeps what was written.
\<close>

lemma download_image_stream_breaks:
  assumes "requests_get env url = Inr resp" and "http_error_msg resp = []"
    and "startswith ''image'' (declared_content_type resp)"
    and "get_filename_from_url env url resp = Inr filename"
    and "open_error env (path_join FETCH_DIR filename) = None"
    and "write_chunks env (path_join FETCH_DIR filename) [] (chunks resp) = (None, content)"
    and "stream_error resp = Some (RequestException detail)"
  shows "download_image env w url =
           (Inr None,
            print (SaveFailedMsg detail)
              (w\<lparr>get_calls := get_calls w @ [url],
                 files := (files w)(path_join FETCH_DIR filename \<mapsto> content)\<rparr>))"
  unfolding download_image_save [OF assms(1-4)]
  by (simp add: save_body_def assms(5-7))

text \<open>
  C5. For every 2xx response whose content type (parameters dropped, lower-cased) does
  not start with \<open>image\<close>, the Downloader prints the not-an-image line, returns \<open>None\<close>,
  and leaves the files as they were.
\<close>

theorem C5_not_an_image:
  assumes "requests_get env url = Inr resp"
    and "200 \<le> status_code resp" and "status_code resp < 300"
    and "ct = normalised_content_type (case content_type_header resp of None \<Rightarrow> [] | Some v \<Rightarrow> v)"
    and "\<not> startswith ''image'' ct"
  shows "download_image env w url =
           (Inr None, print (NotAnImageMsg ct) (w\<lparr>get_calls := get_calls w @ [url]\<rparr>)) \<and>
         files (snd (download_image env w url)) = files w"
proof -
  from assms(3) have "http_error_msg resp = []"
    by (intro http_error_msg_other_status) simp
  with assms(1,4,5)
  have "download_image env w url =
          (Inr None, print (NotAnImageMsg ct) (w\<lparr>get_calls := get_calls w @ [url]\<rparr>))"
    by (simp add: download_image_not_image declared_content_type_eq)
  then show ?thesis by (simp add: print_def)
qed

theorem C5_not_an_image_witness:
  "download_image
     (example_env\<lparr>requests_get :=
        (\<lambda>u. Inr (example_response\<lparr>content_type_header := Some ''text/html; charset=utf-8''\<rparr>))\<rparr>)
     empty_world ''https://example.com/photo'' =
     (Inr None,
      \<lparr>files = Map.empty, dirs = {}, printed = [NotAnImageMsg ''text/html''],
       get_calls = [''https://example.com/photo'']\<rparr>)"
proof -
  let ?resp = "example_response\<lparr>content_type_header := Some ''text/html; charset=utf-8''\<rparr>"
  let ?env = "example_env\<lparr>requests_get := (\<lambda>u. Inr ?resp)\<rparr>"
  have r: "requests_get ?env ''https://example.com/photo'' = Inr ?resp"
    by simp
  have lo: "200 \<le> status_code ?resp" and hi: "status_code ?resp < 300"
    by (simp_all add: example_response_def)
  have c: "''text/html'' = normalised_content_type
             (case content_type_header ?resp of None \<Rightarrow> [] | Some v \<Rightarrow> v)"
    by (simp add: normalised_content_type_def lower_def lower_char_def upper_chars_def
        lower_chars_def)
  have n: "\<not> startswith ''image'' ''text/html''"
    by (simp add: startswith_def)
  show ?thesis
    using C5_not_an_image [OF r lo hi c n, of empty_world]
    by (simp add: print_def empty_world_def)
qed

text \<open>
  C10. For every 2xx response without a \<open>Content-Type\<close> header, or with an empty one,
  the content type read is the empty string, which does not start with \<open>image\<close>: the
  Downloader prints the not-an-image line, returns \<open>None\<close>, and leaves the files as they
  were.
\<close>

theorem C10_missing_content_type:
  assumes "requests_get env url = Inr resp"
    and "200 \<le> status_code resp" and "status_code resp < 300"
    and "content_type_header resp = None \<or> content_type_header resp = Some []"
  shows "download_image env w url =
           (Inr None, print (NotAnImageMsg []) (w\<lparr>get_calls := get_calls w @ [url]\<rparr>)) \<and>
         files (snd (download_image env w url)) = files w"
proof -
  from assms(3) have h: "http_error_msg resp = []"
    by (intro http_error_msg_other_status) simp
  from assms(4) have c: "declared_content_type resp = []"
    by (auto simp: declared_content_type_eq normalised_content_type_def lower_def)
  have "\<not> startswith ''image'' (declared_content_type resp)"
    by (simp add: c startswith_def)
  with assms(1) h
  have "download_image env w url =
          (Inr None, print (NotAnImageMsg (declared_content_type resp))
                       (w\<lparr>get_calls := get_calls w @ [url]\<rparr>))"
    by (rule download_image_not_image)
  then show ?thesis by (simp add: c print_def)
qed

theorem C10_missing_content_type_witness:
  "download_image
     (example_env\<lparr>requests_get := (\<lambda>u. Inr (example_response\<lparr>content_type_header := None\<rparr>))\<rparr>)
     empty_world ''https://example.com/photo'' =
     (Inr None,
      \<lparr>files = Map.empty, dirs = {}, printed = [NotAnImageMsg []],
       get_calls = [''https://example.com/photo'']\<rparr>)"
proof -
  let ?resp = "example_response\<lparr>content_type_header := None\<rparr>"
  let ?env = "example_env\<lparr>requests_get := (\<lambda>u. Inr ?resp)\<rparr>"
  have r: "requests_get ?env ''https://example.com/photo'' = Inr ?resp"
    by simp
  have lo: "200 \<le> status_code ?resp" and hi: "status_code ?resp < 300"
    by (simp_all add: example_response_def)
  have c: "content_type_header ?resp = None \<or> content_type_header ?resp = Some []"
    by simp
  show ?thesis
    using C10_missing_content_type [OF r lo hi c, of empty_world]
    by (simp add: print_def empty_world_def)
qed

lemma write_chunks_content:
  "write_chunks env filepath content cs = (None, content') \<Longrightarrow> content' = content @ concat cs"
  by (induction env filepath content cs rule: write_chunks.induct)
    (auto split: if_splits option.splits)

lemma save_body_ok:
  assumes "save_body env w filepath resp = (None, w')"
  shows "files w' filepath = Some (concat (chunks resp))"
proof -
  obtain err content where wc: "write_chunks env filepath [] (chunks resp) = (err, content)"
    by (cases "write_chunks env filepath [] (chunks resp)")
  from assms wc have o: "open_error env filepath = None" and e: "err = None"
    and w': "w' = w\<lparr>files := (files w)(filepath \<mapsto> content)\<rparr>"
    by (auto simp: save_body_def split: option.splits)
  from wc e have "content = concat (chunks resp)"
    using write_chunks_content [of env filepath "[]" "chunks resp" content] by simp
  with w' show ?thesis by simp
qed

text \<open>
  C6. For every successful download (the Downloader returns a path), the saved file
  holds exactly the concatenation of the chunks of the response body, in arrival
  order.
\<close>

theorem C6_saved_content_is_concatenation:
  assumes "download_image env w url = (Inr (Some saved_path), w')"
    and "requests_get env url = Inr resp"
  shows "files w' saved_path = Some (concat (chunks resp))"
proof -
  let ?w1 = "w\<lparr>get_calls := get_calls w @ [url]\<rparr>"
  from assms have h: "http_error_msg resp = []"
    by (auto simp: download_image_def Let_def raise_for_status_def split: if_splits)
  from assms h have i: "startswith ''image'' (declared_content_type resp)"
    by (auto simp: download_image_def Let_def raise_for_status_def split: if_splits)
  from assms h i obtain filename where g: "get_filename_from_url env url resp = Inr filename"
    by (cases "get_filename_from_url env url resp")
      (auto simp: download_image_def Let_def raise_for_status_def)
  obtain err w2 where s: "save_body env ?w1 (path_join FETCH_DIR filename) resp = (err, w2)"
    by (cases "save_body env ?w1 (path_join FETCH_DIR filename) resp")
  from assms(1) s have "err = None \<and> saved_path = path_join FETCH_DIR filename \<and> w' = w2"
    unfolding download_image_save [OF assms(2) h i g]
    by (cases err) (auto split: if_splits)
  with s show ?thesis
    using save_body_ok by blast
qed

theorem C6_saved_content_is_concatenation_witness:
  "download_image example_env empty_world ''https://example.com/photo'' =
     (Inr (Some ''Fetched_Images/image_1700000000_123456.png''),
      \<lparr>files = [''Fetched_Images/image_1700000000_123456.png'' \<mapsto> [0x89, 0x50, 0x4E, 0x47]],
       dirs = {}, printed = [], get_calls = [''https://example.com/photo'']\<rparr>) \<and>
   chunks example_response = [[0x89, 0x50], [], [0x4E, 0x47]] \<and>
   files \<lparr>files = [''Fetched_Images/image_1700000000_123456.png'' \<mapsto> [0x89, 0x50, 0x4E, 0x47]],
          dirs = {}, printed = [], get_calls = [''https://example.com/photo'']\<rparr>
     ''Fetched_Images/image_1700000000_123456.png'' = Some (concat (chunks example_response))"
proof -
  have r: "requests_get example_env ''https://example.com/photo'' = Inr example_response"
    by (simp add: example_env_def)
  have h: "http_error_msg example_response = []"
    by (simp add: http_error_msg_def example_response_def)
  have c: "declared_content_type example_response = ''image/png''"
    by (rule png_content_type) (simp add: example_response_def)
  have i: "startswith ''image'' (declared_content_type example_response)"
    by (simp add: c startswith_def)
  have g: "get_filename_from_url example_env ''https://example.com/photo'' example_response =
             Inr ''image_1700000000_123456.png''"
    using example_photo_name [of example_env example_response]
    by (simp add: example_env_def c png_fallback_ext)
  have s: "save_body example_env
             (empty_world\<lparr>get_calls := get_calls empty_world @ [''https://example.com/photo'']\<rparr>)
             (path_join FETCH_DIR ''image_1700000000_123456.png'') example_response =
           (None, \<lparr>files = [''Fetched_Images/image_1700000000_123456.png'' \<mapsto> [0x89, 0x50, 0x4E, 0x47]],
                   dirs = {}, printed = [], get_calls = [''https://example.com/photo'']\<rparr>)"
    by (simp add: save_body_def example_env_def example_response_def path_join_def
        FETCH_DIR_def empty_world_def)
  have d: "download_image example_env empty_world ''https://example.com/photo'' =
          (Inr (Some ''Fetched_Images/image_1700000000_123456.png''),
           \<lparr>files = [''Fetched_Images/image_1700000000_123456.png'' \<mapsto> [0x89, 0x50, 0x4E, 0x47]],
            dirs = {}, printed = [], get_calls = [''https://example.com/photo'']\<rparr>)"
    by (simp only: download_image_save [OF r h i g] s) (simp add: path_join_def FETCH_DIR_def)
  have k: "chunks example_response = [[0x89, 0x50], [], [0x4E, 0x47]]"
    by (simp add: example_response_def)
  from d k C6_saved_content_is_concatenation [OF d r] show ?thesis
    by (intro conjI)
qed


section \<open>The command line: claims\<close>

lemma download_image_open_fails:
  assumes "requests_get env url = Inr resp" and "http_error_msg resp = []"
    and "startswith ''image'' (declared_content_type resp)"
    and "get_filename_from_url env url resp = Inr filename"
    and "open_error env (path_join FETCH_DIR filename) = Some (OSError detail)"
  shows "download_image env w url =
           (Inr None, print (SaveFailedMsg detail) (w\<lparr>get_calls := get_calls w @ [url]\<rparr>))"
  unfolding download_image_save [OF assms(1-4)]
  by (simp add: save_body_def assms(5))

text \<open>
  C7. When the directory cannot be created, \<open>mkdir\<close> raises in \<open>ensure_fetch_dir\<close>, which
  \<open>main\<close> calls outside any handler: the exception leaves \<open>main\<close>, nothing is printed,
  and the exit status is 1.
\<close>

theorem C7_mkdir_failure_leaves_main:
  "main (example_env\<lparr>mkdir_error := Some (OSError ''[Errno 13] Permission denied: Fetched_Images'')\<rparr>)
     empty_world =
     (Inl (OSError ''[Errno 13] Permission denied: Fetched_Images''), empty_world) \<and>
   exit_code (fst (main
     (example_env\<lparr>mkdir_error := Some (OSError ''[Errno 13] Permission denied: Fetched_Images'')\<rparr>)
     empty_world)) = 1"
  by (simp add: main_def ensure_fetch_dir_def exit_code_def)

text \<open>
  When the line typed at the prompt, stripped, is empty, or is parsed with a scheme that
  is neither \<open>http\<close> nor \<open>https\<close>, the program prints the explanatory message after the
  prompt and returns, so the exit status is 0; no GET is issued and no file is written.
\<close>

lemma main_rejects_invalid_input:
  assumes "mkdir_error env = None"
    and "stdin_line env = Inr line"
    and "url = strip line"
    and "url = [] \<or>
         (\<exists>parsed. urlparse env url = Inr parsed \<and>
                    scheme parsed \<noteq> ''http'' \<and> scheme parsed \<noteq> ''https'')"
  shows "main env w =
           (Inr (), w\<lparr>dirs := insert FETCH_DIR (dirs w),
                       printed := printed w @ [Prompt, if url = [] then NoUrlMsg else BadSchemeMsg]\<rparr>) \<and>
         exit_code (fst (main env w)) = 0 \<and>
         get_calls (snd (main env w)) = get_calls w \<and>
         files (snd (main env w)) = files w"
proof -
  have "main env w =
          (Inr (), w\<lparr>dirs := insert FETCH_DIR (dirs w),
                      printed := printed w @ [Prompt, if url = [] then NoUrlMsg else BadSchemeMsg]\<rparr>)"
  proof (cases "url = []")
    case True
    with assms(1-3) show ?thesis
      by (simp add: main_def ensure_fetch_dir_def Let_def print_def)
  next
    case False
    with assms(4) obtain parsed where "urlparse env url = Inr parsed"
      and "scheme parsed \<noteq> ''http''" and "scheme parsed \<noteq> ''https''"
      by blast
    with False assms(1-3) show ?thesis
      by (simp add: main_def ensure_fetch_dir_def Let_def print_def)
  qed
  then show ?thesis
    by (simp add: exit_code_def)
qed

lemma main_rejects_invalid_input_example:
  "main (example_env\<lparr>stdin_line := Inr '' ftp://example.com/cat.png ''\<rparr>) empty_world =
     (Inr (), \<lparr>files = Map.empty, dirs = {''Fetched_Images''}, printed = [Prompt, BadSchemeMsg],
               get_calls = []\<rparr>) \<and>
   main (example_env\<lparr>stdin_line := Inr ''  ''\<rparr>) empty_world =
     (Inr (), \<lparr>files = Map.empty, dirs = {''Fetched_Images''}, printed = [Prompt, NoUrlMsg],
               get_calls = []\<rparr>)"
proof -
  let ?e1 = "example_env\<lparr>stdin_line := Inr '' ftp://example.com/cat.png ''\<rparr>"
  let ?e2 = "example_env\<lparr>stdin_line := Inr ''  ''\<rparr>"
  have m1: "mkdir_error ?e1 = None" and m2: "mkdir_error ?e2 = None"
    by (simp_all add: example_env_def)
  have l1: "stdin_line ?e1 = Inr '' ftp://example.com/cat.png ''"
    and l2: "stdin_line ?e2 = Inr ''  ''"
    by simp_all
  have s1: "''ftp://example.com/cat.png'' = strip '' ftp://example.com/cat.png ''"
    by (simp add: strip_def isspace_def)
  have s2: "[] = strip ''  ''"
    by (simp add: strip_def isspace_def)
  have u1: "''ftp://example.com/cat.png'' = [] \<or>
            (\<exists>parsed. urlparse ?e1 ''ftp://example.com/cat.png'' = Inr parsed \<and>
                       scheme parsed \<noteq> ''http'' \<and> scheme parsed \<noteq> ''https'')"
    by (simp add: example_env_def example_urlparse_def)
  have u2: "[] = [] \<or>
            (\<exists>parsed. urlparse ?e2 [] = Inr parsed \<and>
                       scheme parsed \<noteq> ''http'' \<and> scheme parsed \<noteq> ''https'')"
    by simp
  show ?thesis
    using main_rejects_invalid_input [OF m1 l1 s1 u1, of empty_world]
      main_rejects_invalid_input [OF m2 l2 s2 u2, of empty_world]
    by (simp add: empty_world_def FETCH_DIR_def)
qed

text \<open>
  C9. The entered URL \<open>ftp://[::1\<close> has a scheme that is neither \<open>http\<close> nor \<open>https\<close>, but
  \<open>urlparse\<close> raises on it, and \<open>main\<close> calls \<open>urlparse\<close> outside any handler: the exception
  leaves \<open>main\<close> after the prompt, no explanatory message is printed, and the exit status
  is 1 instead of 0. No GET is issued and no file is written.
\<close>

theorem C9_unparsable_url_leaves_main:
  "startswith ''ftp:'' (strip ''ftp://[::1'') \<and>
   main (example_env\<lparr>stdin_line := Inr ''ftp://[::1''\<rparr>) empty_world =
     (Inl (OtherException ''Invalid IPv6 URL''),
      \<lparr>files = Map.empty, dirs = {''Fetched_Images''}, printed = [Prompt], get_calls = []\<rparr>) \<and>
   exit_code (fst (main (example_env\<lparr>stdin_line := Inr ''ftp://[::1''\<rparr>) empty_world)) = 1"
proof -
  have s: "strip ''ftp://[::1'' = ''ftp://[::1''"
    by (simp add: strip_def isspace_def)
  have m: "main (example_env\<lparr>stdin_line := Inr ''ftp://[::1''\<rparr>) empty_world =
     (Inl (OtherException ''Invalid IPv6 URL''),
      \<lparr>files = Map.empty, dirs = {''Fetched_Images''}, printed = [Prompt], get_calls = []\<rparr>)"
    by (simp add: main_def ensure_fetch_dir_def Let_def print_def s example_env_def
        example_urlparse_def empty_world_def FETCH_DIR_def)
  show ?thesis
    by (simp add: m s exit_code_def startswith_def)
qed

end
